theory Spec2Isabelle
  imports Complex_Main
begin

section \<open>Exceptions, promises and HTTP responses\<close>

text \<open>
  The two controllers of the repository, \<^verbatim>\<open>BudgetsController\<close>
  (\<^verbatim>\<open>src/budgets/budgets.controller.ts\<close>) and \<^verbatim>\<open>AuthController\<close>, are embedded
  as functions of their injected service. Every handler is \<^verbatim>\<open>async\<close> (or returns
  what the service returns), so a handler is a computation over the state of the
  service that either resolves with a value or rejects with an exception.

  An exception is either one of the framework's \<^verbatim>\<open>HttpException\<close>s, which carries its
  status code, the \<^verbatim>\<open>TypeError\<close> that JavaScript raises when a property of
  \<^verbatim>\<open>undefined\<close> is read, or any other \<^verbatim>\<open>Error\<close>.
\<close>

datatype exn = HttpException nat | TypeError | Error

abbreviation BadRequestException :: exn where
  "BadRequestException \<equiv> HttpException 400"

abbreviation UnauthorizedException :: exn where
  "UnauthorizedException \<equiv> HttpException 401"

abbreviation NotFoundException :: exn where
  "NotFoundException \<equiv> HttpException 404"


type_synonym ('s, 'a) promise = "'s \<Rightarrow> (exn + 'a) \<times> 's"

definition throw :: "exn \<Rightarrow> ('s, 'a) promise" where
  "throw e = (\<lambda>s. (Inl e, s))"

definition map_promise :: "('a \<Rightarrow> 'b) \<Rightarrow> ('s, 'a) promise \<Rightarrow> ('s, 'b) promise" where
  "map_promise f p = (\<lambda>s. case p s of (Inl e, s') \<Rightarrow> (Inl e, s') | (Inr v, s') \<Rightarrow> (Inr (f v), s'))"

text \<open>
  The framework's built-in exception filter: an \<^verbatim>\<open>HttpException\<close> is answered with its
  own status, everything else with 500.
\<close>

fun status_of :: "exn \<Rightarrow> nat" where
  "status_of (HttpException code) = code"
| "status_of TypeError = 500"
| "status_of Error = 500"

datatype 'a response = Response nat 'a | ErrorResponse nat

text \<open>
  \<open>send code p\<close> runs the handler computation \<open>p\<close> and serialises its outcome: the value
  with the route's success status, or the error status of the exception.
\<close>

definition send :: "nat \<Rightarrow> ('s, 'a) promise \<Rightarrow> 's \<Rightarrow> 'a response \<times> 's" where
  "send code p s =
     (case p s of
        (Inl e, s') \<Rightarrow> (ErrorResponse (status_of e), s')
      | (Inr v, s') \<Rightarrow> (Response code v, s'))"

section \<open>Requests, DTOs and entities\<close>

text \<open>
  Modelled from the spec: the DTO, entity and interface declarations, which the
  controllers import from files that are not among the sources. Their shapes are what
  the controllers and their decorators say about them: \<^verbatim>\<open>IPayloadToken\<close> has the field
  \<^verbatim>\<open>sub\<close> the handlers read; \<^verbatim>\<open>FilterBudgetDto\<close> has the three optional query fields of
  the \<^verbatim>\<open>@ApiQuery\<close> decorators (category, month 0 - 11, status pending, active or
  completed); \<^verbatim>\<open>IBudgetBalance\<close> has the five fields of the \<^verbatim>\<open>@ApiOkResponse\<close> example of
  \<^verbatim>\<open>getBalance\<close>; \<^verbatim>\<open>User\<close> has the fields of the \<^verbatim>\<open>@ApiCreatedResponse\<close> examples;
  \<^verbatim>\<open>CreateUserDto\<close> has name, email and password. \<^verbatim>\<open>CreateBudgetDto\<close> and
  \<^verbatim>\<open>UpdateBudgetDto\<close> are the JSON objects of the request body, their values kept as
  text. Of a \<^verbatim>\<open>Budget\<close> only what the spec implies is kept: its id, its owner, "an initial
  amount, a spent amount". Amounts are exact rationals; a percentage is \<open>None\<close> where
  JavaScript's division by zero gives \<^verbatim>\<open>NaN\<close> or an infinity.
\<close>

record payload_token =
  sub :: string

datatype budget_status = Pending | Active | Completed

record filter_budget_dto =
  category :: "string option"
  month :: "int option"
  status :: "budget_status option"

type_synonym json_object = "(string \<times> string) list"

type_synonym create_budget_dto = json_object

type_synonym update_budget_dto = json_object

record budget =
  budget_id :: string
  owner_id :: string
  initial :: rat
  spent :: rat

record budget_balance =
  initial_amount :: rat
  spent_amount :: rat
  percentage_spent_amount :: "rat option"
  remaining_amount :: rat
  percentage_remaining_amount :: "rat option"

record message_object =
  message :: string

record create_user_dto =
  name :: string
  email :: string
  password :: string

record user_entity =
  user_id :: string
  user_name :: string
  user_email :: string
  onboarding :: bool
  role :: string

text \<open>The object \<^verbatim>\<open>{ accessToken, user }\<close> of the authentication routes.\<close>

record jwt_and_user =
  accessToken :: string
  user_data :: user_entity

text \<open>
  An express request, as far as the controllers and their guards and pipes read it: the
  \<^verbatim>\<open>Authorization\<close> header, \<^verbatim>\<open>req.user\<close> (undefined until a guard sets it), the path
  parameters, the query object and the body. On the budgets routes the query and the
  body are the objects that \<^verbatim>\<open>@Query()\<close> and \<^verbatim>\<open>@Body()\<close> bind to the handler's DTO
  parameters; the controller puts no pipe of its own on them.
\<close>

record 'u request =
  authorization :: "string option"
  user :: "'u option"
  params :: "(string \<times> string) list"
  query :: filter_budget_dto
  body :: json_object

section \<open>The injected services\<close>

text \<open>
  \<^verbatim>\<open>BudgetsService\<close> and \<^verbatim>\<open>AuthService\<close> are constructor parameters of the controllers;
  here they are records of methods, each in the argument order of its call site.
\<close>

record 's budgets_service =
  svc_create :: "string \<Rightarrow> create_budget_dto \<Rightarrow> ('s, budget) promise"
  svc_findAll :: "string \<Rightarrow> filter_budget_dto \<Rightarrow> ('s, budget list) promise"
  svc_findOne :: "string \<Rightarrow> string \<Rightarrow> ('s, budget) promise"
  svc_update :: "string \<Rightarrow> string \<Rightarrow> update_budget_dto \<Rightarrow> ('s, budget) promise"
  svc_remove :: "string \<Rightarrow> string \<Rightarrow> ('s, message_object) promise"
  svc_getBalance :: "string \<Rightarrow> string \<Rightarrow> ('s, budget_balance) promise"

record 's auth_service =
  svc_registerUser :: "create_user_dto \<Rightarrow> ('s, jwt_and_user) promise"
  svc_generateJwtToken :: "user_entity option \<Rightarrow> ('s, jwt_and_user) promise"

section \<open>BudgetsController: the handlers\<close>

text \<open>
  Each handler reads \<^verbatim>\<open>req.user\<close>, takes its \<^verbatim>\<open>sub\<close> and awaits one service method.
  Reading \<^verbatim>\<open>user.sub\<close> of an undefined \<^verbatim>\<open>req.user\<close> raises a \<^verbatim>\<open>TypeError\<close>. The
  parameters keep their names and their order; \<^verbatim>\<open>id\<close> is written \<open>ident\<close>.
\<close>

definition create ::
  "'s budgets_service \<Rightarrow> create_budget_dto \<Rightarrow> payload_token request \<Rightarrow> ('s, budget) promise" where
  "create budgetsService createBudgetDto req =
     (case user req of
        None \<Rightarrow> throw TypeError
      | Some u \<Rightarrow> svc_create budgetsService (sub u) createBudgetDto)"

definition findAll ::
  "'s budgets_service \<Rightarrow> payload_token request \<Rightarrow> filter_budget_dto \<Rightarrow> ('s, budget list) promise" where
  "findAll budgetsService req filterOptions =
     (case user req of
        None \<Rightarrow> throw TypeError
      | Some u \<Rightarrow> svc_findAll budgetsService (sub u) filterOptions)"

definition findOne ::
  "'s budgets_service \<Rightarrow> string \<Rightarrow> payload_token request \<Rightarrow> ('s, budget) promise" where
  "findOne budgetsService ident req =
     (case user req of
        None \<Rightarrow> throw TypeError
      | Some u \<Rightarrow> svc_findOne budgetsService ident (sub u))"

definition update ::
  "'s budgets_service \<Rightarrow> string \<Rightarrow> update_budget_dto \<Rightarrow> payload_token request \<Rightarrow> ('s, budget) promise" where
  "update budgetsService ident updateBudgetDto req =
     (case user req of
        None \<Rightarrow> throw TypeError
      | Some u \<Rightarrow> svc_update budgetsService ident (sub u) updateBudgetDto)"

definition remove ::
  "'s budgets_service \<Rightarrow> string \<Rightarrow> payload_token request \<Rightarrow> ('s, message_object) promise" where
  "remove budgetsService ident req =
     (case user req of
        None \<Rightarrow> throw TypeError
      | Some u \<Rightarrow> svc_remove budgetsService ident (sub u))"

definition getBalance ::
  "'s budgets_service \<Rightarrow> string \<Rightarrow> payload_token request \<Rightarrow> ('s, budget_balance) promise" where
  "getBalance budgetsService ident req =
     (case user req of
        None \<Rightarrow> throw TypeError
      | Some u \<Rightarrow> svc_getBalance budgetsService ident (sub u))"

section \<open>AuthController: the handlers\<close>

text \<open>
  \<^verbatim>\<open>createUser\<close> awaits \<^verbatim>\<open>registerUser\<close>. \<^verbatim>\<open>login\<close> reads no property of \<^verbatim>\<open>req.user\<close>:
  it hands the value, defined or not, to \<^verbatim>\<open>generateJwtToken\<close>.
\<close>

definition createUser :: "'s auth_service \<Rightarrow> create_user_dto \<Rightarrow> ('s, jwt_and_user) promise" where
  "createUser authService createDoctorDto = svc_registerUser authService createDoctorDto"

definition login :: "'s auth_service \<Rightarrow> user_entity request \<Rightarrow> ('s, jwt_and_user) promise" where
  "login authService req = svc_generateJwtToken authService (user req)"

section \<open>The framework: guards, pipes and the route table\<close>

text \<open>
  A guard runs before the pipes and the handler of its route. It either rejects the
  request with an exception or lets it through, possibly with \<^verbatim>\<open>req.user\<close> set.
\<close>

type_synonym 'u guard = "'u request \<Rightarrow> exn + 'u request"

definition useGuards :: "'u guard \<Rightarrow> ('u request \<Rightarrow> ('s, 'a) promise) \<Rightarrow> 'u request \<Rightarrow> ('s, 'a) promise" where
  "useGuards g handler req =
     (case g req of
        Inl e \<Rightarrow> throw e
      | Inr req' \<Rightarrow> handler req')"

text \<open>A pipe transforms an argument before the handler sees it, or rejects the request.\<close>

definition usePipe :: "('a \<Rightarrow> exn + 'b) \<Rightarrow> 'a \<Rightarrow> ('b \<Rightarrow> ('s, 'c) promise) \<Rightarrow> ('s, 'c) promise" where
  "usePipe pipe v handler =
     (case pipe v of
        Inl e \<Rightarrow> throw e
      | Inr v' \<Rightarrow> handler v')"

definition Param :: "string \<Rightarrow> 'u request \<Rightarrow> string option" where
  "Param key req = map_of (params req) key"

text \<open>
  \<^verbatim>\<open>ParseUUIDPipe\<close> with no version: the argument must be a string of 8-4-4-4-12
  hexadecimal digits (either case) separated by dashes; anything else is a
  \<^verbatim>\<open>BadRequestException\<close>.
\<close>

definition is_hex :: "char \<Rightarrow> bool" where
  "is_hex c = (c \<in> set ''0123456789abcdefABCDEF'')"

fun hexdigits :: "nat \<Rightarrow> string \<Rightarrow> string option" where
  "hexdigits 0 s = Some s"
| "hexdigits (Suc n) [] = None"
| "hexdigits (Suc n) (c # s) = (if is_hex c then hexdigits n s else None)"

fun dash :: "string \<Rightarrow> string option" where
  "dash [] = None"
| "dash (c # s) = (if c = CHR ''-'' then Some s else None)"

definition isUUID :: "string \<Rightarrow> bool" where
  "isUUID s =
     (foldl Option.bind (Some s)
        [hexdigits 8, dash, hexdigits 4, dash, hexdigits 4, dash, hexdigits 4, dash, hexdigits 12]
      = Some [])"

definition ParseUUIDPipe :: "string option \<Rightarrow> exn + string" where
  "ParseUUIDPipe v =
     (case v of
        None \<Rightarrow> Inl BadRequestException
      | Some s \<Rightarrow> if isUUID s then Inr s else Inl BadRequestException)"

text \<open>
  The routes of \<^verbatim>\<open>BudgetsController\<close>, one per method decorator, and the body each
  answers with. A \<^verbatim>\<open>@Post\<close> route answers 201 on success, the others 200 (no handler has
  an \<^verbatim>\<open>@HttpCode\<close>).
\<close>

datatype budgets_route =
  POST_budgets | GET_budgets | GET_budgets_id | PATCH_budgets_id | DELETE_budgets_id
| GET_budgets_id_balance

datatype budgets_body =
  BudgetBody budget | BudgetsBody "budget list" | MessageBody message_object
| BalanceBody budget_balance

fun success_status :: "budgets_route \<Rightarrow> nat" where
  "success_status POST_budgets = 201"
| "success_status GET_budgets = 200"
| "success_status GET_budgets_id = 200"
| "success_status PATCH_budgets_id = 200"
| "success_status DELETE_budgets_id = 200"
| "success_status GET_budgets_id_balance = 200"

text \<open>
  The parameter decorators of each handler: \<^verbatim>\<open>@Body()\<close>, \<^verbatim>\<open>@Query()\<close>, \<^verbatim>\<open>@Req()\<close> and
  \<^verbatim>\<open>@Param('id', ParseUUIDPipe)\<close>.
\<close>

fun route_handler ::
  "'s budgets_service \<Rightarrow> budgets_route \<Rightarrow> payload_token request \<Rightarrow> ('s, budgets_body) promise" where
  "route_handler svc POST_budgets req = map_promise BudgetBody (create svc (body req) req)"
| "route_handler svc GET_budgets req = map_promise BudgetsBody (findAll svc req (query req))"
| "route_handler svc GET_budgets_id req =
     usePipe ParseUUIDPipe (Param ''id'' req) (\<lambda>ident. map_promise BudgetBody (findOne svc ident req))"
| "route_handler svc PATCH_budgets_id req =
     usePipe ParseUUIDPipe (Param ''id'' req)
       (\<lambda>ident. map_promise BudgetBody (update svc ident (body req) req))"
| "route_handler svc DELETE_budgets_id req =
     usePipe ParseUUIDPipe (Param ''id'' req) (\<lambda>ident. map_promise MessageBody (remove svc ident req))"
| "route_handler svc GET_budgets_id_balance req =
     usePipe ParseUUIDPipe (Param ''id'' req)
       (\<lambda>ident. map_promise BalanceBody (getBalance svc ident req))"

text \<open>
  \<^verbatim>\<open>@UseGuards(JwtAuthGuard)\<close> stands on the class, so the guard runs on every route. The
  guard class lives outside the controller file; the controller is a function of it.
\<close>

definition BudgetsController ::
  "payload_token guard \<Rightarrow> 's budgets_service \<Rightarrow> budgets_route \<Rightarrow> payload_token request \<Rightarrow>
     's \<Rightarrow> budgets_body response \<times> 's" where
  "BudgetsController jwtAuthGuard budgetsService route req =
     send (success_status route) (useGuards jwtAuthGuard (route_handler budgetsService route) req)"




section \<open>Observing the calls a controller makes\<close>

text \<open>
  To speak about the arguments a controller hands to its service, a service is wrapped
  so that every call is appended to a log kept beside the service's own state. The
  wrapped service answers exactly as the service it wraps.
\<close>

datatype budgets_call =
  Call_create string create_budget_dto
| Call_findAll string filter_budget_dto
| Call_findOne string string
| Call_update string string update_budget_dto
| Call_remove string string
| Call_getBalance string string

text \<open>The owner argument of a call, at the position the service method takes it.\<close>

fun call_owner :: "budgets_call \<Rightarrow> string" where
  "call_owner (Call_create owner dto) = owner"
| "call_owner (Call_findAll owner flt) = owner"
| "call_owner (Call_findOne ident owner) = owner"
| "call_owner (Call_update ident owner dto) = owner"
| "call_owner (Call_remove ident owner) = owner"
| "call_owner (Call_getBalance ident owner) = owner"

datatype auth_call =
  Call_registerUser create_user_dto
| Call_generateJwtToken "user_entity option"

definition record_call :: "'c \<Rightarrow> ('s, 'a) promise \<Rightarrow> ('s \<times> 'c list, 'a) promise" where
  "record_call c p = (\<lambda>(s, calls). case p s of (r, s') \<Rightarrow> (r, (s', calls @ [c])))"

definition recording :: "'s budgets_service \<Rightarrow> ('s \<times> budgets_call list) budgets_service" where
  "recording svc =
     \<lparr> svc_create = (\<lambda>owner dto. record_call (Call_create owner dto) (svc_create svc owner dto)),
       svc_findAll = (\<lambda>owner flt. record_call (Call_findAll owner flt) (svc_findAll svc owner flt)),
       svc_findOne = (\<lambda>ident owner. record_call (Call_findOne ident owner) (svc_findOne svc ident owner)),
       svc_update = (\<lambda>ident owner dto.
          record_call (Call_update ident owner dto) (svc_update svc ident owner dto)),
       svc_remove = (\<lambda>ident owner. record_call (Call_remove ident owner) (svc_remove svc ident owner)),
       svc_getBalance = (\<lambda>ident owner.
          record_call (Call_getBalance ident owner) (svc_getBalance svc ident owner)) \<rparr>"

definition recording_auth :: "'s auth_service \<Rightarrow> ('s \<times> auth_call list) auth_service" where
  "recording_auth svc =
     \<lparr> svc_registerUser = (\<lambda>dto. record_call (Call_registerUser dto) (svc_registerUser svc dto)),
       svc_generateJwtToken = (\<lambda>u.
          record_call (Call_generateJwtToken u) (svc_generateJwtToken svc u)) \<rparr>"

text \<open>The calls a request to a budgets route makes, starting from an empty log.\<close>

definition calls_of ::
  "payload_token guard \<Rightarrow> 's budgets_service \<Rightarrow> budgets_route \<Rightarrow> payload_token request \<Rightarrow>
     's \<Rightarrow> budgets_call list" where
  "calls_of g svc route req s = snd (snd (BudgetsController g (recording svc) route req (s, [])))"

text \<open>The owners of the calls a handler makes when run on a wrapped service.\<close>

definition owner_scope :: "('s \<times> budgets_call list, 'a) promise \<Rightarrow> 's \<Rightarrow> string list" where
  "owner_scope p s = map call_owner (snd (snd (p (s, []))))"


text \<open>
  The call each route is said to delegate to: the service method of the same name, with
  the caller's \<^verbatim>\<open>sub\<close> as owner, the \<^verbatim>\<open>id\<close> of the path where the route has one, and the
  body or the query where the handler takes one.
\<close>

fun delegated_call ::
  "budgets_route \<Rightarrow> string \<Rightarrow> payload_token \<Rightarrow> payload_token request \<Rightarrow> budgets_call" where
  "delegated_call POST_budgets ident u req = Call_create (sub u) (body req)"
| "delegated_call GET_budgets ident u req = Call_findAll (sub u) (query req)"
| "delegated_call GET_budgets_id ident u req = Call_findOne ident (sub u)"
| "delegated_call PATCH_budgets_id ident u req = Call_update ident (sub u) (body req)"
| "delegated_call DELETE_budgets_id ident u req = Call_remove ident (sub u)"
| "delegated_call GET_budgets_id_balance ident u req = Call_getBalance ident (sub u)"

section \<open>Collaborators outside the controller files\<close>

text \<open>
  Modelled from the spec: \<^verbatim>\<open>JwtAuthGuard\<close> (\<^verbatim>\<open>src/auth/guards/jwt/jwt-auth.guard\<close>, not
  among the sources). The spec: "All budget routes require a bearer token validated by a
  guard", "unauthenticated requests to guarded routes return 401". The guard takes the
  token of an \<^verbatim>\<open>Authorization: Bearer\<close> header, has it verified (\<open>verify\<close>, the JWT
  library with the application's secret, a parameter) and stores the verified payload
  in \<^verbatim>\<open>req.user\<close>.
\<close>

definition bearer_token :: "string \<Rightarrow> string option" where
  "bearer_token header = (if take 7 header = ''Bearer '' then Some (drop 7 header) else None)"

definition JwtAuthGuard :: "(string \<Rightarrow> payload_token option) \<Rightarrow> payload_token guard" where
  "JwtAuthGuard verify req =
     (case authorization req of
        None \<Rightarrow> Inl UnauthorizedException
      | Some header \<Rightarrow>
          (case bearer_token header of
             None \<Rightarrow> Inl UnauthorizedException
           | Some token \<Rightarrow>
               (case verify token of
                  None \<Rightarrow> Inl UnauthorizedException
                | Some payload \<Rightarrow> Inr (req\<lparr>user := Some payload\<rparr>))))"

text \<open>The payload of the request's bearer token, when it has one that verifies.\<close>

definition bearer_payload :: "(string \<Rightarrow> payload_token option) \<Rightarrow> 'u request \<Rightarrow> payload_token option" where
  "bearer_payload verify req =
     (case authorization req of
        None \<Rightarrow> None
      | Some header \<Rightarrow>
          (case bearer_token header of
             None \<Rightarrow> None
           | Some token \<Rightarrow> verify token))"




text \<open>
  Modelled from the spec: the two look-ups of \<^verbatim>\<open>BudgetsService\<close>
  (\<^verbatim>\<open>src/budgets/budgets.service\<close>, not among the sources), over a table of budgets. The
  spec: "GET /budgets/:id ... 404 if absent"; "GET /budgets/:id/balance ... 404 if
  budget absent", "balance percentages are computed consistently (spent/initial x 100,
  remaining = initial - spent)". A budget exists for the caller when the table holds
  one with the id asked for whose owner is the caller's identifier. The other methods
  are those of \<open>rest\<close>.
\<close>

definition find_budget :: "string \<Rightarrow> string \<Rightarrow> budget list \<Rightarrow> budget option" where
  "find_budget ident owner table = List.find (\<lambda>b. budget_id b = ident \<and> owner_id b = owner) table"

definition percentage :: "rat \<Rightarrow> rat \<Rightarrow> rat option" where
  "percentage part whole = (if whole = 0 then None else Some (part / whole * 100))"

definition balance_of :: "budget \<Rightarrow> budget_balance" where
  "balance_of b =
     \<lparr> initial_amount = initial b,
       spent_amount = spent b,
       percentage_spent_amount = percentage (spent b) (initial b),
       remaining_amount = initial b - spent b,
       percentage_remaining_amount = percentage (initial b - spent b) (initial b) \<rparr>"

definition BudgetsService_findOne :: "string \<Rightarrow> string \<Rightarrow> (budget list, budget) promise" where
  "BudgetsService_findOne ident owner table =
     (case find_budget ident owner table of
        None \<Rightarrow> (Inl NotFoundException, table)
      | Some b \<Rightarrow> (Inr b, table))"

definition BudgetsService_getBalance :: "string \<Rightarrow> string \<Rightarrow> (budget list, budget_balance) promise" where
  "BudgetsService_getBalance ident owner table =
     (case find_budget ident owner table of
        None \<Rightarrow> (Inl NotFoundException, table)
      | Some b \<Rightarrow> (Inr (balance_of b), table))"

definition BudgetsService :: "budget list budgets_service \<Rightarrow> budget list budgets_service" where
  "BudgetsService rest =
     rest\<lparr> svc_findOne := BudgetsService_findOne,
           svc_getBalance := BudgetsService_getBalance \<rparr>"

section \<open>Sample collaborators for the instances\<close>

text \<open>
  Test doubles for the closed instances below: a token verifier that knows two tokens,
  a credential check that knows one user, and services that answer every call with a
  fixed value and leave their state alone.
\<close>

definition sample_verify :: "string \<Rightarrow> payload_token option" where
  "sample_verify token =
     (if token = ''token-1'' then Some \<lparr>sub = ''user-1''\<rparr>
      else if token = ''token-2'' then Some \<lparr>sub = ''user-2''\<rparr>
      else None)"

definition jane :: user_entity where
  "jane = \<lparr> user_id = ''uuid'', user_name = ''Jane Smith'', user_email = ''janesmith@example.com'',
            onboarding = False, role = ''user'' \<rparr>"


definition sample_budget :: budget where
  "sample_budget =
     \<lparr> budget_id = ''b2c6e182-6aef-4c38-8d26-9153d7ebc7d2'', owner_id = ''user-1'',
       initial = 1000, spent = 200 \<rparr>"

definition stub_budgets_service :: "'s budgets_service" where
  "stub_budgets_service =
     \<lparr> svc_create = (\<lambda>owner dto s. (Inr sample_budget, s)),
       svc_findAll = (\<lambda>owner flt s. (Inr [sample_budget], s)),
       svc_findOne = (\<lambda>ident owner s. (Inr sample_budget, s)),
       svc_update = (\<lambda>ident owner dto s. (Inr sample_budget, s)),
       svc_remove = (\<lambda>ident owner s. (Inr \<lparr>message = ''Budget deleted successfully''\<rparr>, s)),
       svc_getBalance = (\<lambda>ident owner s. (Inr (balance_of sample_budget), s)) \<rparr>"

definition stub_auth_service :: "'s auth_service" where
  "stub_auth_service =
     \<lparr> svc_registerUser = (\<lambda>dto s. (Inr \<lparr>accessToken = ''JWT_TOKEN'', user_data = jane\<rparr>, s)),
       svc_generateJwtToken = (\<lambda>u s. (Inr \<lparr>accessToken = ''JWT_TOKEN'', user_data = jane\<rparr>, s)) \<rparr>"



definition sample_request :: "payload_token request" where
  "sample_request =
     \<lparr> authorization = Some ''Bearer token-1'', user = None,
       params = [(''id'', ''b2c6e182-6aef-4c38-8d26-9153d7ebc7d2'')],
       query = \<lparr>category = Some ''food'', month = Some 3, status = Some Active\<rparr>,
       body = [(''amount'', ''1000'')] \<rparr>"

text \<open>The sample request as the handlers see it, once the guard has stored the payload.\<close>

definition authenticated_request :: "payload_token request" where
  "authenticated_request = sample_request\<lparr>user := Some \<lparr>sub = ''user-1''\<rparr>\<rparr>"



section \<open>Basic facts about the pipeline\<close>

lemmas handler_defs = create_def findAll_def findOne_def update_def remove_def getBalance_def

lemmas pipeline_defs = BudgetsController_def useGuards_def usePipe_def send_def throw_def
  map_promise_def Param_def ParseUUIDPipe_def JwtAuthGuard_def bearer_token_def

lemmas sample_defs = sample_request_def sample_verify_def stub_budgets_service_def
  sample_budget_def authenticated_request_def

lemma send_throw: "send code (throw e) s = (ErrorResponse (status_of e), s)"
  by (simp add: send_def throw_def)

lemma send_state: "snd (send code p s) = snd (p s)"
  by (simp add: send_def split: prod.splits sum.splits)

lemma BudgetsController_rejected:
  "g req = Inl e \<Longrightarrow> BudgetsController g svc route req s = (ErrorResponse (status_of e), s)"
  by (simp add: BudgetsController_def useGuards_def send_throw)

lemma BudgetsController_admitted:
  "g req = Inr req' \<Longrightarrow>
   BudgetsController g svc route req s = send (success_status route) (route_handler svc route req') s"
  by (simp add: BudgetsController_def useGuards_def send_def)

lemma calls_of_rejected: "g req = Inl e \<Longrightarrow> calls_of g svc route req s = []"
  by (simp add: calls_of_def BudgetsController_rejected)

lemma calls_of_admitted:
  "g req = Inr req' \<Longrightarrow>
   calls_of g svc route req s = snd (snd (route_handler (recording svc) route req' (s, [])))"
  by (simp add: calls_of_def BudgetsController_admitted send_state)

text \<open>
  Whatever the route, its handler makes no call, or one call whose owner argument is the
  \<^verbatim>\<open>sub\<close> of \<^verbatim>\<open>req.user\<close>.
\<close>

lemma handler_calls:
  "snd (snd (route_handler (recording svc) route req (s, calls))) = calls \<or>
   (\<exists>u c. user req = Some u \<and> call_owner c = sub u \<and>
      snd (snd (route_handler (recording svc) route req (s, calls))) = calls @ [c])"
  by (cases route)
     (auto simp: handler_defs recording_def record_call_def map_promise_def usePipe_def throw_def
        split: option.splits sum.splits prod.splits)

lemma isUUID_sample: "isUUID ''b2c6e182-6aef-4c38-8d26-9153d7ebc7d2''"
  by (simp add: isUUID_def is_hex_def eval_nat_numeral)

lemma not_isUUID_sample: "\<not> isUUID ''not-a-uuid''"
  by (simp add: isUUID_def is_hex_def eval_nat_numeral)

text \<open>After the guard and the UUID pipe, a route with an \<^verbatim>\<open>:id\<close> is its service method.\<close>

lemma route_handler_bad_id:
  "route \<in> {GET_budgets_id, PATCH_budgets_id, DELETE_budgets_id, GET_budgets_id_balance} \<Longrightarrow>
   \<forall>v. Param ''id'' req = Some v \<longrightarrow> \<not> isUUID v \<Longrightarrow>
   route_handler svc route req = throw BadRequestException"
  by (auto simp: usePipe_def ParseUUIDPipe_def split: option.splits)

lemma route_handler_findOne:
  "Param ''id'' req = Some v \<Longrightarrow> isUUID v \<Longrightarrow> user req = Some u \<Longrightarrow>
   route_handler svc GET_budgets_id req = map_promise BudgetBody (svc_findOne svc v (sub u))"
  by (simp add: usePipe_def ParseUUIDPipe_def findOne_def)

lemma route_handler_getBalance:
  "Param ''id'' req = Some v \<Longrightarrow> isUUID v \<Longrightarrow> user req = Some u \<Longrightarrow>
   route_handler svc GET_budgets_id_balance req = map_promise BalanceBody (svc_getBalance svc v (sub u))"
  by (simp add: usePipe_def ParseUUIDPipe_def getBalance_def)


lemma find_budget_in_table: "find_budget ident owner table = Some b \<Longrightarrow> b \<in> set table"
  by (auto simp: find_budget_def find_Some_iff)

text \<open>A 200 answer of the balance route carries the balance of a budget found in the table.\<close>

lemma balance_response_origin:
  assumes "BudgetsController g (BudgetsService rest) GET_budgets_id_balance req0 table
      = (Response code (BalanceBody bal), table')"
  shows "\<exists>b \<in> set table. bal = balance_of b"
proof (cases "g req0")
  case (Inl e)
  with assms show ?thesis by (simp add: BudgetsController_rejected)
next
  case (Inr req)
  with assms have "send 200 (route_handler (BudgetsService rest) GET_budgets_id_balance req) table
      = (Response code (BalanceBody bal), table')"
    by (simp add: BudgetsController_admitted del: route_handler.simps)
  then show ?thesis
    by (auto simp: send_def usePipe_def ParseUUIDPipe_def getBalance_def map_promise_def throw_def
          BudgetsService_def BudgetsService_getBalance_def
        split: option.splits if_splits prod.splits sum.splits dest: find_budget_in_table)
qed

lemma sample_admitted: "JwtAuthGuard sample_verify sample_request = Inr authenticated_request"
  by (simp add: JwtAuthGuard_def bearer_token_def sample_defs)

lemma bearer_token_iff: "(bearer_token header = Some token) = (header = ''Bearer '' @ token)"
proof
  assume "bearer_token header = Some token"
  then have "take 7 header = ''Bearer ''" and "token = drop 7 header"
    by (auto simp: bearer_token_def split: if_splits)
  then show "header = ''Bearer '' @ token"
    by (metis append_take_drop_id)
next
  assume "header = ''Bearer '' @ token"
  then show "bearer_token header = Some token"
    by (simp add: bearer_token_def)
qed

lemma bearer_payload_iff:
  "(bearer_payload verify req = Some p) =
   (\<exists>token. authorization req = Some (''Bearer '' @ token) \<and> verify token = Some p)"
proof
  assume "bearer_payload verify req = Some p"
  then obtain header token where "authorization req = Some header"
    and "bearer_token header = Some token" and "verify token = Some p"
    by (auto simp: bearer_payload_def split: option.splits)
  then show "\<exists>token. authorization req = Some (''Bearer '' @ token) \<and> verify token = Some p"
    by (auto simp: bearer_token_iff)
next
  assume "\<exists>token. authorization req = Some (''Bearer '' @ token) \<and> verify token = Some p"
  then show "bearer_payload verify req = Some p"
    by (auto simp: bearer_payload_def bearer_token_def)
qed

lemma JwtAuthGuard_bearer:
  "JwtAuthGuard verify req =
     (case bearer_payload verify req of
        None \<Rightarrow> Inl UnauthorizedException
      | Some p \<Rightarrow> Inr (req\<lparr>user := Some p\<rparr>))"
  by (simp add: JwtAuthGuard_def bearer_payload_def split: option.splits)

lemma handler_one_call:
  "user req = Some u \<Longrightarrow>
   route \<in> {POST_budgets, GET_budgets} \<or> (Param ''id'' req = Some v \<and> isUUID v) \<Longrightarrow>
   snd (snd (route_handler (recording svc) route req (s, calls)))
     = calls @ [delegated_call route v u req]"
  by (cases route)
     (auto simp: handler_defs recording_def record_call_def map_promise_def usePipe_def
        ParseUUIDPipe_def split: prod.splits sum.splits)

lemma call_owner_delegated: "call_owner (delegated_call route v u req) = sub u"
  by (cases route) simp_all

lemma calls_of_one:
  "g req0 = Inr req \<Longrightarrow> user req = Some u \<Longrightarrow>
   route \<in> {POST_budgets, GET_budgets} \<or> (Param ''id'' req = Some v \<and> isUUID v) \<Longrightarrow>
   calls_of g svc route req0 s = [delegated_call route v u req]"
  using handler_one_call [of req u route v svc s "[]"]
  by (simp add: calls_of_admitted del: route_handler.simps)

lemma find_budget_Some:
  "find_budget ident owner table = Some b \<Longrightarrow>
   b \<in> set table \<and> budget_id b = ident \<and> owner_id b = owner"
  by (auto simp: find_budget_def find_Some_iff)

lemma find_budget_None:
  "(find_budget ident owner table = None) =
   (\<not> (\<exists>b \<in> set table. budget_id b = ident \<and> owner_id b = owner))"
  by (auto simp: find_budget_def find_None_iff)




section \<open>The guard and the owner scope\<close>

text \<open>
  C1. On every route of \<^verbatim>\<open>BudgetsController\<close> (create, findAll, findOne, update, remove,
  getBalance) the class-level guard decides first. A request the guard rejects is
  answered with the guard's error, the service is not called and its state is
  untouched. A request the guard admits, with \<^verbatim>\<open>req.user\<close> stored and, on a route with an
  \<^verbatim>\<open>:id\<close>, a valid UUID, makes exactly one call: the service method of its route, with
  \<^verbatim>\<open>req.user.sub\<close> as owner. Every call the service receives is of that kind. For the
  bearer-token guard: a request has a payload exactly when its \<^verbatim>\<open>Authorization\<close> header
  is \<^verbatim>\<open>Bearer\<close> and a token that verifies; without one it is answered 401 and nothing is
  called; with one, the owner of the one call is the \<^verbatim>\<open>sub\<close> of the verified payload.
\<close>

theorem guard_before_every_route:
  "(\<forall>e. jwtAuthGuard req = Inl e \<longrightarrow>
        BudgetsController jwtAuthGuard svc route req s = (ErrorResponse (status_of e), s)
      \<and> calls_of jwtAuthGuard svc route req s = [])
   \<and> (\<forall>c \<in> set (calls_of jwtAuthGuard svc route req s).
        \<exists>req' u. jwtAuthGuard req = Inr req' \<and> user req' = Some u \<and> call_owner c = sub u)
   \<and> (\<forall>req' u v. jwtAuthGuard req = Inr req' \<and> user req' = Some u
          \<and> (route \<in> {POST_budgets, GET_budgets} \<or> (Param ''id'' req' = Some v \<and> isUUID v)) \<longrightarrow>
        calls_of jwtAuthGuard svc route req s = [delegated_call route v u req']
      \<and> call_owner (delegated_call route v u req') = sub u)
   \<and> (bearer_payload verify req = Some p) =
        (\<exists>token. authorization req = Some (''Bearer '' @ token) \<and> verify token = Some p)
   \<and> (bearer_payload verify req = None \<longrightarrow>
        BudgetsController (JwtAuthGuard verify) svc route req s = (ErrorResponse 401, s)
      \<and> calls_of (JwtAuthGuard verify) svc route req s = [])
   \<and> (\<forall>payload v. bearer_payload verify req = Some payload
          \<and> (route \<in> {POST_budgets, GET_budgets} \<or> (Param ''id'' req = Some v \<and> isUUID v)) \<longrightarrow>
        calls_of (JwtAuthGuard verify) svc route req s
          = [delegated_call route v payload (req\<lparr>user := Some payload\<rparr>)]
      \<and> call_owner (delegated_call route v payload (req\<lparr>user := Some payload\<rparr>)) = sub payload)"
proof (intro conjI allI impI ballI)
  fix e assume "jwtAuthGuard req = Inl e"
  then show "BudgetsController jwtAuthGuard svc route req s = (ErrorResponse (status_of e), s)"
    by (rule BudgetsController_rejected)
next
  fix e assume "jwtAuthGuard req = Inl e"
  then show "calls_of jwtAuthGuard svc route req s = []"
    by (rule calls_of_rejected)
next
  fix c assume c: "c \<in> set (calls_of jwtAuthGuard svc route req s)"
  show "\<exists>req' u. jwtAuthGuard req = Inr req' \<and> user req' = Some u \<and> call_owner c = sub u"
  proof (cases "jwtAuthGuard req")
    case (Inl e)
    with c show ?thesis by (simp add: calls_of_rejected)
  next
    case (Inr req')
    with c have "c \<in> set (snd (snd (route_handler (recording svc) route req' (s, []))))"
      by (simp add: calls_of_admitted)
    with handler_calls [of svc route req' s "[]"] Inr show ?thesis by auto
  qed
next
  fix req' u v
  assume a: "jwtAuthGuard req = Inr req' \<and> user req' = Some u
      \<and> (route \<in> {POST_budgets, GET_budgets} \<or> (Param ''id'' req' = Some v \<and> isUUID v))"
  then have "snd (snd (route_handler (recording svc) route req' (s, [])))
      = [] @ [delegated_call route v u req']"
    by (intro handler_one_call) simp_all
  with a show "calls_of jwtAuthGuard svc route req s = [delegated_call route v u req']"
    by (simp add: calls_of_admitted del: route_handler.simps)
  show "call_owner (delegated_call route v u req') = sub u"
    by (rule call_owner_delegated)
next
  show "(bearer_payload verify req = Some p) =
        (\<exists>token. authorization req = Some (''Bearer '' @ token) \<and> verify token = Some p)"
    by (rule bearer_payload_iff)
next
  assume n: "bearer_payload verify req = None"
  then have r: "JwtAuthGuard verify req = Inl UnauthorizedException"
    by (simp add: JwtAuthGuard_bearer)
  show "BudgetsController (JwtAuthGuard verify) svc route req s = (ErrorResponse 401, s)"
    using BudgetsController_rejected [where g = "JwtAuthGuard verify" and req = req
        and e = UnauthorizedException] r by simp
  show "calls_of (JwtAuthGuard verify) svc route req s = []"
    using r by (rule calls_of_rejected)
next
  fix payload v
  assume a: "bearer_payload verify req = Some payload
      \<and> (route \<in> {POST_budgets, GET_budgets} \<or> (Param ''id'' req = Some v \<and> isUUID v))"
  let ?req' = "req\<lparr>user := Some payload\<rparr>"
  from a have g: "JwtAuthGuard verify req = Inr ?req'"
    by (simp add: JwtAuthGuard_bearer)
  from a have "snd (snd (route_handler (recording svc) route ?req' (s, [])))
      = [] @ [delegated_call route v payload ?req']"
    by (intro handler_one_call) (simp_all add: Param_def)
  with g show "calls_of (JwtAuthGuard verify) svc route req s
      = [delegated_call route v payload ?req']"
    by (simp add: calls_of_admitted del: route_handler.simps)
  show "call_owner (delegated_call route v payload ?req') = sub payload"
    by (rule call_owner_delegated)
qed

text \<open>
  Without a header, and with a token that does not verify, the answer is 401 and nothing
  is called; with the token of user-1 the create, findAll and update routes make their
  call with owner user-1, and with the token of user-2 the delete route with owner
  user-2.
\<close>

theorem guard_before_every_route_witness:
  "bearer_payload sample_verify (sample_request\<lparr>authorization := None\<rparr>) = None
   \<and> BudgetsController (JwtAuthGuard sample_verify) stub_budgets_service POST_budgets
        (sample_request\<lparr>authorization := None\<rparr>) (0::nat) = (ErrorResponse 401, 0)
   \<and> calls_of (JwtAuthGuard sample_verify) stub_budgets_service POST_budgets
        (sample_request\<lparr>authorization := None\<rparr>) (0::nat) = []
   \<and> bearer_payload sample_verify (sample_request\<lparr>authorization := Some ''Bearer forged''\<rparr>) = None
   \<and> BudgetsController (JwtAuthGuard sample_verify) stub_budgets_service PATCH_budgets_id
        (sample_request\<lparr>authorization := Some ''Bearer forged''\<rparr>) (0::nat) = (ErrorResponse 401, 0)
   \<and> calls_of (JwtAuthGuard sample_verify) stub_budgets_service PATCH_budgets_id
        (sample_request\<lparr>authorization := Some ''Bearer forged''\<rparr>) (0::nat) = []
   \<and> bearer_payload sample_verify sample_request = Some \<lparr>sub = ''user-1''\<rparr>
   \<and> calls_of (JwtAuthGuard sample_verify) stub_budgets_service POST_budgets sample_request (0::nat)
       = [Call_create ''user-1'' [(''amount'', ''1000'')]]
   \<and> calls_of (JwtAuthGuard sample_verify) stub_budgets_service GET_budgets sample_request (0::nat)
       = [Call_findAll ''user-1'' \<lparr>category = Some ''food'', month = Some 3, status = Some Active\<rparr>]
   \<and> calls_of (JwtAuthGuard sample_verify) stub_budgets_service PATCH_budgets_id sample_request
        (0::nat)
       = [Call_update ''b2c6e182-6aef-4c38-8d26-9153d7ebc7d2'' ''user-1'' [(''amount'', ''1000'')]]
   \<and> calls_of (JwtAuthGuard sample_verify) stub_budgets_service DELETE_budgets_id
        (sample_request\<lparr>authorization := Some ''Bearer token-2''\<rparr>) (0::nat)
       = [Call_remove ''b2c6e182-6aef-4c38-8d26-9153d7ebc7d2'' ''user-2'']"
proof -
  let ?g = "JwtAuthGuard sample_verify"
  let ?uuid = "''b2c6e182-6aef-4c38-8d26-9153d7ebc7d2''"
  let ?anonymous = "sample_request\<lparr>authorization := None\<rparr>"
  let ?forged = "sample_request\<lparr>authorization := Some ''Bearer forged''\<rparr>"
  let ?second = "sample_request\<lparr>authorization := Some ''Bearer token-2''\<rparr>"
  note inst = guard_before_every_route [where jwtAuthGuard = ?g and verify = sample_verify
      and svc = stub_budgets_service and s = "0::nat" and p = "\<lparr>sub = ''user-1''\<rparr>"]
  have none: "bearer_payload sample_verify ?anonymous = None"
    and forged: "bearer_payload sample_verify ?forged = None"
    and one: "bearer_payload sample_verify sample_request = Some \<lparr>sub = ''user-1''\<rparr>"
    and two: "bearer_payload sample_verify ?second = Some \<lparr>sub = ''user-2''\<rparr>"
    by (simp_all add: bearer_payload_def bearer_token_def sample_request_def sample_verify_def)
  have ident: "Param ''id'' sample_request = Some ?uuid \<and> isUUID ?uuid"
    and ident2: "Param ''id'' ?second = Some ?uuid \<and> isUUID ?uuid"
    by (simp_all add: Param_def sample_request_def isUUID_sample)
  from inst [where req = ?anonymous and route = POST_budgets] none
  have a: "BudgetsController ?g stub_budgets_service POST_budgets ?anonymous (0::nat)
        = (ErrorResponse 401, 0)
      \<and> calls_of ?g stub_budgets_service POST_budgets ?anonymous (0::nat) = []"
    by blast
  from inst [where req = ?forged and route = PATCH_budgets_id] forged
  have b: "BudgetsController ?g stub_budgets_service PATCH_budgets_id ?forged (0::nat)
        = (ErrorResponse 401, 0)
      \<and> calls_of ?g stub_budgets_service PATCH_budgets_id ?forged (0::nat) = []"
    by blast
  from inst [where req = sample_request and route = POST_budgets] one
  have "calls_of ?g stub_budgets_service POST_budgets sample_request (0::nat)
      = [delegated_call POST_budgets ?uuid \<lparr>sub = ''user-1''\<rparr>
          (sample_request\<lparr>user := Some \<lparr>sub = ''user-1''\<rparr>\<rparr>)]"
    by blast
  then have c: "calls_of ?g stub_budgets_service POST_budgets sample_request (0::nat)
      = [Call_create ''user-1'' [(''amount'', ''1000'')]]"
    by (simp add: sample_request_def)
  from inst [where req = sample_request and route = GET_budgets] one
  have "calls_of ?g stub_budgets_service GET_budgets sample_request (0::nat)
      = [delegated_call GET_budgets ?uuid \<lparr>sub = ''user-1''\<rparr>
          (sample_request\<lparr>user := Some \<lparr>sub = ''user-1''\<rparr>\<rparr>)]"
    by blast
  then have d: "calls_of ?g stub_budgets_service GET_budgets sample_request (0::nat)
      = [Call_findAll ''user-1'' \<lparr>category = Some ''food'', month = Some 3, status = Some Active\<rparr>]"
    by (simp add: sample_request_def)
  from inst [where req = sample_request and route = PATCH_budgets_id] one ident
  have "calls_of ?g stub_budgets_service PATCH_budgets_id sample_request (0::nat)
      = [delegated_call PATCH_budgets_id ?uuid \<lparr>sub = ''user-1''\<rparr>
          (sample_request\<lparr>user := Some \<lparr>sub = ''user-1''\<rparr>\<rparr>)]"
    by blast
  then have e: "calls_of ?g stub_budgets_service PATCH_budgets_id sample_request (0::nat)
      = [Call_update ?uuid ''user-1'' [(''amount'', ''1000'')]]"
    by (simp add: sample_request_def)
  from inst [where req = ?second and route = DELETE_budgets_id] two ident2
  have "calls_of ?g stub_budgets_service DELETE_budgets_id ?second (0::nat)
      = [delegated_call DELETE_budgets_id ?uuid \<lparr>sub = ''user-2''\<rparr>
          (?second\<lparr>user := Some \<lparr>sub = ''user-2''\<rparr>\<rparr>)]"
    by blast
  then have f: "calls_of ?g stub_budgets_service DELETE_budgets_id ?second (0::nat)
      = [Call_remove ?uuid ''user-2'']"
    by simp
  from none a forged b one c d e f show ?thesis by blast
qed

section \<open>The balance\<close>

text \<open>
  C2. Whenever \<^verbatim>\<open>GET /budgets/:id/balance\<close> answers with a balance, the balance is that of
  a budget of the table with initial amount \<open>i\<close> and spent amount \<open>s\<close>, and its fields
  satisfy \<open>remaining_amount = i - s\<close>, \<open>percentage_spent_amount = s / i * 100\<close> and
  \<open>percentage_remaining_amount = remaining_amount / i * 100\<close>. The arithmetic is exact;
  for \<open>i = 0\<close>, where JavaScript's division gives \<^verbatim>\<open>NaN\<close> or an infinity, both
  percentages are \<open>None\<close>.
\<close>

theorem balance_percentages_consistent:
  "BudgetsController jwtAuthGuard (BudgetsService rest) GET_budgets_id_balance req0 table
      = (Response code (BalanceBody bal), table') \<Longrightarrow>
     remaining_amount bal = initial_amount bal - spent_amount bal
   \<and> percentage_spent_amount bal = percentage (spent_amount bal) (initial_amount bal)
   \<and> percentage_remaining_amount bal = percentage (remaining_amount bal) (initial_amount bal)
   \<and> (initial_amount bal \<noteq> 0 \<longrightarrow>
        percentage_spent_amount bal = Some (spent_amount bal / initial_amount bal * 100)
      \<and> percentage_remaining_amount bal = Some (remaining_amount bal / initial_amount bal * 100))
   \<and> (\<exists>b \<in> set table. initial_amount bal = initial b \<and> spent_amount bal = spent b)"
proof -
  assume "BudgetsController jwtAuthGuard (BudgetsService rest) GET_budgets_id_balance req0 table
      = (Response code (BalanceBody bal), table')"
  then obtain b where b: "b \<in> set table" and bal: "bal = balance_of b"
    using balance_response_origin by blast
  from bal have "remaining_amount bal = initial_amount bal - spent_amount bal"
    and "percentage_spent_amount bal = percentage (spent_amount bal) (initial_amount bal)"
    and "percentage_remaining_amount bal = percentage (remaining_amount bal) (initial_amount bal)"
    and "initial_amount bal = initial b" and "spent_amount bal = spent b"
    by (simp_all add: balance_of_def)
  with b show ?thesis by (auto simp: percentage_def)
qed

text \<open>The documented example: 1000 initial, 200 spent, so 20 percent spent, 800 and 80 left.\<close>

theorem balance_percentages_consistent_witness:
  "BudgetsController (JwtAuthGuard sample_verify) (BudgetsService stub_budgets_service)
        GET_budgets_id_balance sample_request [sample_budget]
     = (Response 200 (BalanceBody \<lparr>initial_amount = 1000, spent_amount = 200,
          percentage_spent_amount = Some 20, remaining_amount = 800,
          percentage_remaining_amount = Some 80\<rparr>), [sample_budget])
   \<and> (800::rat) = 1000 - 200
   \<and> Some (20::rat) = percentage 200 1000
   \<and> Some (80::rat) = percentage 800 1000"
proof -
  let ?bal = "\<lparr>initial_amount = 1000, spent_amount = 200,
          percentage_spent_amount = Some 20, remaining_amount = 800,
          percentage_remaining_amount = Some 80\<rparr>"
  have run: "BudgetsController (JwtAuthGuard sample_verify) (BudgetsService stub_budgets_service)
        GET_budgets_id_balance sample_request [sample_budget]
     = (Response 200 (BalanceBody ?bal), [sample_budget])"
    by (simp add: pipeline_defs getBalance_def sample_defs isUUID_sample BudgetsService_def
          BudgetsService_getBalance_def find_budget_def balance_of_def percentage_def)
  from balance_percentages_consistent [OF run] run show ?thesis by simp
qed

text \<open>
  C3, amended. For every request the guard admits and whose \<^verbatim>\<open>id\<close> is a valid UUID,
  \<^verbatim>\<open>GET /budgets/:id/balance\<close> makes the one call \<^verbatim>\<open>getBalance(id, sub)\<close>. When the table
  holds a budget with that id whose owner is the caller, the answer is 200 with the
  object of the five fields \<^verbatim>\<open>initial_amount\<close>, \<^verbatim>\<open>spent_amount\<close>,
  \<^verbatim>\<open>percentage_spent_amount\<close>, \<^verbatim>\<open>remaining_amount\<close> and \<^verbatim>\<open>percentage_remaining_amount\<close> of such
  a budget; when the table holds none, the answer is 404.
\<close>

theorem balance_found_or_404:
  "jwtAuthGuard req0 = Inr req \<Longrightarrow> user req = Some u \<Longrightarrow>
   Param ''id'' req = Some v \<Longrightarrow> isUUID v \<Longrightarrow>
     calls_of jwtAuthGuard svc GET_budgets_id_balance req0 s = [Call_getBalance v (sub u)]
   \<and> ((\<exists>b \<in> set table. budget_id b = v \<and> owner_id b = sub u) \<longrightarrow>
        (\<exists>b \<in> set table. budget_id b = v \<and> owner_id b = sub u \<and>
           BudgetsController jwtAuthGuard (BudgetsService rest) GET_budgets_id_balance req0 table =
             (Response 200
                (BalanceBody
                   \<lparr> initial_amount = initial b,
                     spent_amount = spent b,
                     percentage_spent_amount = percentage (spent b) (initial b),
                     remaining_amount = initial b - spent b,
                     percentage_remaining_amount = percentage (initial b - spent b) (initial b) \<rparr>),
              table)))
   \<and> (\<not> (\<exists>b \<in> set table. budget_id b = v \<and> owner_id b = sub u) \<longrightarrow>
        BudgetsController jwtAuthGuard (BudgetsService rest) GET_budgets_id_balance req0 table =
          (ErrorResponse 404, table))"
proof (intro conjI impI)
  assume g: "jwtAuthGuard req0 = Inr req" and u: "user req = Some u"
    and v: "Param ''id'' req = Some v" "isUUID v"
  have h: "\<And>svc. route_handler svc GET_budgets_id_balance req
      = map_promise BalanceBody (svc_getBalance svc v (sub u))"
    using u v by (intro route_handler_getBalance)
  show "calls_of jwtAuthGuard svc GET_budgets_id_balance req0 s = [Call_getBalance v (sub u)]"
    using calls_of_one [where g = jwtAuthGuard and ?req0.0 = req0 and req = req and u = u
        and route = GET_budgets_id_balance and v = v and svc = svc and s = s] g u v by simp
  have run: "BudgetsController jwtAuthGuard (BudgetsService rest) GET_budgets_id_balance req0 table
      = (case find_budget v (sub u) table of
           Some b \<Rightarrow> (Response 200 (BalanceBody (balance_of b)), table)
         | None \<Rightarrow> (ErrorResponse 404, table))"
    using g by (simp add: BudgetsController_admitted h send_def map_promise_def
        BudgetsService_def BudgetsService_getBalance_def
        del: route_handler.simps split: option.splits)
  {
    assume "\<exists>b \<in> set table. budget_id b = v \<and> owner_id b = sub u"
    then obtain b where b: "find_budget v (sub u) table = Some b"
      using find_budget_None [of v "sub u" table] by auto
    with find_budget_Some [OF b] run
    show "\<exists>b \<in> set table. budget_id b = v \<and> owner_id b = sub u \<and>
           BudgetsController jwtAuthGuard (BudgetsService rest) GET_budgets_id_balance req0 table =
             (Response 200
                (BalanceBody
                   \<lparr> initial_amount = initial b,
                     spent_amount = spent b,
                     percentage_spent_amount = percentage (spent b) (initial b),
                     remaining_amount = initial b - spent b,
                     percentage_remaining_amount = percentage (initial b - spent b) (initial b) \<rparr>),
              table)"
      by (auto simp: balance_of_def)
  }
  {
    assume "\<not> (\<exists>b \<in> set table. budget_id b = v \<and> owner_id b = sub u)"
    then have "find_budget v (sub u) table = None"
      by (simp add: find_budget_None)
    with run show "BudgetsController jwtAuthGuard (BudgetsService rest) GET_budgets_id_balance
        req0 table = (ErrorResponse 404, table)"
      by simp
  }
qed

text \<open>
  The caller's budget is found; an empty table, and a table holding the budget under
  another owner, give 404.
\<close>

theorem balance_found_or_404_witness:
  "BudgetsController (JwtAuthGuard sample_verify) (BudgetsService stub_budgets_service)
        GET_budgets_id_balance sample_request [sample_budget]
     = (Response 200 (BalanceBody \<lparr>initial_amount = 1000, spent_amount = 200,
          percentage_spent_amount = Some 20, remaining_amount = 800,
          percentage_remaining_amount = Some 80\<rparr>), [sample_budget])
   \<and> BudgetsController (JwtAuthGuard sample_verify) (BudgetsService stub_budgets_service)
        GET_budgets_id_balance sample_request [] = (ErrorResponse 404, [])
   \<and> BudgetsController (JwtAuthGuard sample_verify) (BudgetsService stub_budgets_service)
        GET_budgets_id_balance sample_request [sample_budget\<lparr>owner_id := ''user-2''\<rparr>]
     = (ErrorResponse 404, [sample_budget\<lparr>owner_id := ''user-2''\<rparr>])
   \<and> calls_of (JwtAuthGuard sample_verify) (BudgetsService stub_budgets_service)
        GET_budgets_id_balance sample_request []
     = [Call_getBalance ''b2c6e182-6aef-4c38-8d26-9153d7ebc7d2'' ''user-1'']"
proof -
  let ?uuid = "''b2c6e182-6aef-4c38-8d26-9153d7ebc7d2''"
  let ?svc = "BudgetsService stub_budgets_service"
  let ?other = "sample_budget\<lparr>owner_id := ''user-2''\<rparr>"
  have u: "user authenticated_request = Some \<lparr>sub = ''user-1''\<rparr>"
    and v: "Param ''id'' authenticated_request = Some ?uuid"
    by (simp_all add: Param_def sample_defs)
  note inst = balance_found_or_404 [where jwtAuthGuard = "JwtAuthGuard sample_verify"
      and ?req0.0 = sample_request and req = authenticated_request
      and u = "\<lparr>sub = ''user-1''\<rparr>" and v = ?uuid and rest = stub_budgets_service
      and svc = ?svc and s = "[]",
      OF sample_admitted u v isUUID_sample]
  have present: "\<exists>b \<in> set [sample_budget]. budget_id b = ?uuid
      \<and> owner_id b = sub \<lparr>sub = ''user-1''\<rparr>"
    and absent: "\<not> (\<exists>b \<in> set []. budget_id b = ?uuid \<and> owner_id b = sub \<lparr>sub = ''user-1''\<rparr>)"
    and foreign: "\<not> (\<exists>b \<in> set [?other]. budget_id b = ?uuid
      \<and> owner_id b = sub \<lparr>sub = ''user-1''\<rparr>)"
    by (simp_all add: sample_budget_def)
  from inst [of "[sample_budget]"] present
  have a: "BudgetsController (JwtAuthGuard sample_verify) ?svc GET_budgets_id_balance
        sample_request [sample_budget]
     = (Response 200 (BalanceBody \<lparr>initial_amount = 1000, spent_amount = 200,
          percentage_spent_amount = Some 20, remaining_amount = 800,
          percentage_remaining_amount = Some 80\<rparr>), [sample_budget])"
    by (simp add: sample_budget_def percentage_def)
  from inst [of "[]"] absent
  have b: "BudgetsController (JwtAuthGuard sample_verify) ?svc GET_budgets_id_balance
        sample_request [] = (ErrorResponse 404, [])"
    and d: "calls_of (JwtAuthGuard sample_verify) ?svc GET_budgets_id_balance sample_request []
     = [Call_getBalance ?uuid ''user-1'']"
    by simp_all
  from inst [of "[?other]"] foreign
  have c: "BudgetsController (JwtAuthGuard sample_verify) ?svc GET_budgets_id_balance
        sample_request [?other] = (ErrorResponse 404, [?other])"
    by blast
  from a b c d show ?thesis by blast
qed

text \<open>
  C3 as stated fails: an authenticated request whose \<^verbatim>\<open>id\<close> is not a UUID names a budget
  that is absent, and is answered 400 by the pipe, not 404.
\<close>

theorem balance_bad_id_is_400:
  "find_budget ''not-a-uuid'' ''user-1'' [] = None
   \<and> JwtAuthGuard sample_verify (sample_request\<lparr>params := [(''id'', ''not-a-uuid'')]\<rparr>)
       = Inr (authenticated_request\<lparr>params := [(''id'', ''not-a-uuid'')]\<rparr>)
   \<and> BudgetsController (JwtAuthGuard sample_verify) (BudgetsService stub_budgets_service)
        GET_budgets_id_balance (sample_request\<lparr>params := [(''id'', ''not-a-uuid'')]\<rparr>) []
       = (ErrorResponse 400, [])
   \<and> fst (BudgetsController (JwtAuthGuard sample_verify) (BudgetsService stub_budgets_service)
        GET_budgets_id_balance (sample_request\<lparr>params := [(''id'', ''not-a-uuid'')]\<rparr>) [])
       \<noteq> ErrorResponse 404"
  by (simp add: find_budget_def pipeline_defs sample_defs not_isUUID_sample)

section \<open>The authentication routes\<close>







section \<open>The UUID pipe\<close>

text \<open>
  C6, amended. On \<^verbatim>\<open>GET /budgets/:id\<close>, \<^verbatim>\<open>PATCH /budgets/:id\<close>, \<^verbatim>\<open>DELETE /budgets/:id\<close> and
  \<^verbatim>\<open>GET /budgets/:id/balance\<close>, a request the guard admits and whose \<^verbatim>\<open>id\<close> is not a valid
  UUID is answered 400 by \<^verbatim>\<open>ParseUUIDPipe\<close>; the service is not called and its state is
  untouched. With a valid UUID, \<^verbatim>\<open>GET /budgets/:id\<close> makes the one call
  \<^verbatim>\<open>findOne(id, sub)\<close>; when the table holds a budget with that id whose owner is the
  caller, the answer is 200 with such a budget, and when it holds none, 404.
\<close>

theorem uuid_checked_before_service:
  "jwtAuthGuard req0 = Inr req \<Longrightarrow>
   route \<in> {GET_budgets_id, PATCH_budgets_id, DELETE_budgets_id, GET_budgets_id_balance} \<Longrightarrow>
     ((\<forall>v. Param ''id'' req = Some v \<longrightarrow> \<not> isUUID v) \<longrightarrow>
        BudgetsController jwtAuthGuard svc route req0 s = (ErrorResponse 400, s)
      \<and> calls_of jwtAuthGuard svc route req0 s = [])
   \<and> (\<forall>v u. Param ''id'' req = Some v \<and> isUUID v \<and> user req = Some u \<longrightarrow>
        calls_of jwtAuthGuard svc GET_budgets_id req0 s = [Call_findOne v (sub u)]
      \<and> ((\<exists>b \<in> set table. budget_id b = v \<and> owner_id b = sub u) \<longrightarrow>
           (\<exists>b \<in> set table. budget_id b = v \<and> owner_id b = sub u \<and>
              BudgetsController jwtAuthGuard (BudgetsService rest) GET_budgets_id req0 table =
                (Response 200 (BudgetBody b), table)))
      \<and> (\<not> (\<exists>b \<in> set table. budget_id b = v \<and> owner_id b = sub u) \<longrightarrow>
           BudgetsController jwtAuthGuard (BudgetsService rest) GET_budgets_id req0 table =
             (ErrorResponse 404, table)))"
proof (intro conjI impI allI)
  assume g: "jwtAuthGuard req0 = Inr req"
    and r: "route \<in> {GET_budgets_id, PATCH_budgets_id, DELETE_budgets_id, GET_budgets_id_balance}"
    and bad: "\<forall>v. Param ''id'' req = Some v \<longrightarrow> \<not> isUUID v"
  show "BudgetsController jwtAuthGuard svc route req0 s = (ErrorResponse 400, s)"
    using g by (simp add: BudgetsController_admitted route_handler_bad_id [OF r bad] send_throw)
  show "calls_of jwtAuthGuard svc route req0 s = []"
    using g by (simp add: calls_of_admitted route_handler_bad_id [OF r bad] throw_def)
next
  fix v u
  assume g: "jwtAuthGuard req0 = Inr req"
    and ok: "Param ''id'' req = Some v \<and> isUUID v \<and> user req = Some u"
  from ok have h: "\<And>svc. route_handler svc GET_budgets_id req
      = map_promise BudgetBody (svc_findOne svc v (sub u))"
    by (intro route_handler_findOne) simp_all
  show "calls_of jwtAuthGuard svc GET_budgets_id req0 s = [Call_findOne v (sub u)]"
    using calls_of_one [where g = jwtAuthGuard and ?req0.0 = req0 and req = req and u = u
        and route = GET_budgets_id and v = v and svc = svc and s = s] g ok by simp
  have run: "BudgetsController jwtAuthGuard (BudgetsService rest) GET_budgets_id req0 table
      = (case find_budget v (sub u) table of
           Some b \<Rightarrow> (Response 200 (BudgetBody b), table)
         | None \<Rightarrow> (ErrorResponse 404, table))"
    using g by (simp add: BudgetsController_admitted h send_def map_promise_def
        BudgetsService_def BudgetsService_findOne_def
        del: route_handler.simps split: option.splits)
  {
    assume "\<exists>b \<in> set table. budget_id b = v \<and> owner_id b = sub u"
    then obtain b where b: "find_budget v (sub u) table = Some b"
      using find_budget_None [of v "sub u" table] by auto
    with find_budget_Some [OF b] run
    show "\<exists>b \<in> set table. budget_id b = v \<and> owner_id b = sub u \<and>
        BudgetsController jwtAuthGuard (BudgetsService rest) GET_budgets_id req0 table =
          (Response 200 (BudgetBody b), table)"
      by auto
  }
  {
    assume "\<not> (\<exists>b \<in> set table. budget_id b = v \<and> owner_id b = sub u)"
    then have "find_budget v (sub u) table = None"
      by (simp add: find_budget_None)
    with run show "BudgetsController jwtAuthGuard (BudgetsService rest) GET_budgets_id req0 table
        = (ErrorResponse 404, table)"
      by simp
  }
qed

theorem uuid_checked_before_service_witness:
  "JwtAuthGuard sample_verify (sample_request\<lparr>params := [(''id'', ''not-a-uuid'')]\<rparr>)
       = Inr (authenticated_request\<lparr>params := [(''id'', ''not-a-uuid'')]\<rparr>)
   \<and> BudgetsController (JwtAuthGuard sample_verify) stub_budgets_service DELETE_budgets_id
        (sample_request\<lparr>params := [(''id'', ''not-a-uuid'')]\<rparr>) (0::nat) = (ErrorResponse 400, 0)
   \<and> calls_of (JwtAuthGuard sample_verify) stub_budgets_service DELETE_budgets_id
        (sample_request\<lparr>params := [(''id'', ''not-a-uuid'')]\<rparr>) (0::nat) = []
   \<and> calls_of (JwtAuthGuard sample_verify) stub_budgets_service GET_budgets_id
        sample_request (0::nat) = [Call_findOne ''b2c6e182-6aef-4c38-8d26-9153d7ebc7d2'' ''user-1'']
   \<and> BudgetsController (JwtAuthGuard sample_verify) (BudgetsService stub_budgets_service)
        GET_budgets_id sample_request [sample_budget]
       = (Response 200 (BudgetBody sample_budget), [sample_budget])
   \<and> BudgetsController (JwtAuthGuard sample_verify) (BudgetsService stub_budgets_service)
        GET_budgets_id sample_request [] = (ErrorResponse 404, [])
   \<and> BudgetsController (JwtAuthGuard sample_verify) (BudgetsService stub_budgets_service)
        GET_budgets_id sample_request [sample_budget\<lparr>owner_id := ''user-2''\<rparr>]
       = (ErrorResponse 404, [sample_budget\<lparr>owner_id := ''user-2''\<rparr>])"
proof -
  let ?g = "JwtAuthGuard sample_verify"
  let ?raw = "sample_request\<lparr>params := [(''id'', ''not-a-uuid'')]\<rparr>"
  let ?bad = "authenticated_request\<lparr>params := [(''id'', ''not-a-uuid'')]\<rparr>"
  let ?uuid = "''b2c6e182-6aef-4c38-8d26-9153d7ebc7d2''"
  let ?svc = "BudgetsService stub_budgets_service"
  let ?other = "sample_budget\<lparr>owner_id := ''user-2''\<rparr>"
  have g1: "?g ?raw = Inr ?bad"
    by (simp add: JwtAuthGuard_def bearer_token_def sample_defs)
  have r1: "DELETE_budgets_id
      \<in> {GET_budgets_id, PATCH_budgets_id, DELETE_budgets_id, GET_budgets_id_balance}"
    and r2: "GET_budgets_id
      \<in> {GET_budgets_id, PATCH_budgets_id, DELETE_budgets_id, GET_budgets_id_balance}"
    by simp_all
  have bad: "\<forall>v. Param ''id'' ?bad = Some v \<longrightarrow> \<not> isUUID v"
    by (simp add: Param_def sample_defs not_isUUID_sample)
  have ok: "Param ''id'' authenticated_request = Some ?uuid \<and> isUUID ?uuid
      \<and> user authenticated_request = Some \<lparr>sub = ''user-1''\<rparr>"
    by (simp add: Param_def sample_defs isUUID_sample)
  have present: "\<exists>b \<in> set [sample_budget]. budget_id b = ?uuid
      \<and> owner_id b = sub \<lparr>sub = ''user-1''\<rparr>"
    and absent: "\<not> (\<exists>b \<in> set []. budget_id b = ?uuid \<and> owner_id b = sub \<lparr>sub = ''user-1''\<rparr>)"
    and foreign: "\<not> (\<exists>b \<in> set [?other]. budget_id b = ?uuid
      \<and> owner_id b = sub \<lparr>sub = ''user-1''\<rparr>)"
    by (simp_all add: sample_budget_def)
  from uuid_checked_before_service [where jwtAuthGuard = ?g and ?req0.0 = ?raw and req = ?bad
      and route = DELETE_budgets_id and svc = stub_budgets_service and s = "0::nat"] g1 r1 bad
  have a: "BudgetsController ?g stub_budgets_service DELETE_budgets_id ?raw (0::nat)
        = (ErrorResponse 400, 0)
      \<and> calls_of ?g stub_budgets_service DELETE_budgets_id ?raw (0::nat) = []"
    by blast
  note inst = uuid_checked_before_service [where jwtAuthGuard = ?g and ?req0.0 = sample_request
      and req = authenticated_request and route = GET_budgets_id and svc = stub_budgets_service
      and s = "0::nat" and rest = stub_budgets_service, OF sample_admitted r2]
  from inst [of "[sample_budget]"] ok present
  have b: "calls_of ?g stub_budgets_service GET_budgets_id sample_request (0::nat)
        = [Call_findOne ?uuid ''user-1'']"
    and c: "\<exists>b \<in> set [sample_budget]. budget_id b = ?uuid \<and> owner_id b = ''user-1'' \<and>
        BudgetsController ?g ?svc GET_budgets_id sample_request [sample_budget]
          = (Response 200 (BudgetBody b), [sample_budget])"
    by simp_all
  from c have c': "BudgetsController ?g ?svc GET_budgets_id sample_request [sample_budget]
      = (Response 200 (BudgetBody sample_budget), [sample_budget])"
    by simp
  from inst [of "[]"] ok absent
  have d: "BudgetsController ?g ?svc GET_budgets_id sample_request [] = (ErrorResponse 404, [])"
    by blast
  from inst [of "[?other]"] ok foreign
  have e: "BudgetsController ?g ?svc GET_budgets_id sample_request [?other]
      = (ErrorResponse 404, [?other])"
    by blast
  from g1 a b c' d e show ?thesis by blast
qed

text \<open>
  C6 as stated fails: the guard runs before the pipe, so a request without a token is
  answered 401 whatever its \<^verbatim>\<open>id\<close>.
\<close>

theorem unauthenticated_bad_id_is_401:
  "\<not> isUUID ''not-a-uuid''
   \<and> Param ''id'' (sample_request\<lparr>authorization := None, params := [(''id'', ''not-a-uuid'')]\<rparr>)
       = Some ''not-a-uuid''
   \<and> BudgetsController (JwtAuthGuard sample_verify) stub_budgets_service GET_budgets_id
        (sample_request\<lparr>authorization := None, params := [(''id'', ''not-a-uuid'')]\<rparr>) (0::nat)
       = (ErrorResponse 401, 0)
   \<and> fst (BudgetsController (JwtAuthGuard sample_verify) stub_budgets_service GET_budgets_id
        (sample_request\<lparr>authorization := None, params := [(''id'', ''not-a-uuid'')]\<rparr>) (0::nat))
       \<noteq> ErrorResponse 400"
  by (simp add: not_isUUID_sample Param_def sample_request_def BudgetsController_def
        useGuards_def JwtAuthGuard_def send_throw)

section \<open>Filters, deletion and delegation\<close>

text \<open>
  C7. \<^verbatim>\<open>findAll\<close> hands the filter object (optional \<^verbatim>\<open>category\<close>, \<^verbatim>\<open>month\<close>, \<^verbatim>\<open>status\<close>), as it
  received it, together with the caller's \<^verbatim>\<open>sub\<close> to \<^verbatim>\<open>BudgetsService.findAll\<close>, in one
  call; and \<^verbatim>\<open>GET /budgets\<close>, for a request the guard admits, answers 200 with the list
  of budgets that call resolves with.
\<close>

theorem findAll_forwards_filters:
  "(user req = Some u \<longrightarrow>
       findAll svc req filterOptions = svc_findAll svc (sub u) filterOptions
     \<and> snd (snd (findAll (recording svc) req filterOptions (s, []))) =
         [Call_findAll (sub u) filterOptions])
   \<and> (jwtAuthGuard req0 = Inr req \<and> user req = Some u \<longrightarrow>
       BudgetsController jwtAuthGuard svc GET_budgets req0 s =
         (case svc_findAll svc (sub u) (query req) s of
            (Inl e, s') \<Rightarrow> (ErrorResponse (status_of e), s')
          | (Inr budgets, s') \<Rightarrow> (Response 200 (BudgetsBody budgets), s')))"
  by (auto simp: findAll_def recording_def record_call_def BudgetsController_admitted send_def
        map_promise_def split: prod.splits sum.splits)

theorem findAll_forwards_filters_witness:
  "user authenticated_request = Some \<lparr>sub = ''user-1''\<rparr>
   \<and> JwtAuthGuard sample_verify sample_request = Inr authenticated_request
   \<and> snd (snd (findAll (recording stub_budgets_service) authenticated_request
        \<lparr>category = Some ''food'', month = Some 3, status = Some Active\<rparr> (0::nat, [])))
       = [Call_findAll ''user-1'' \<lparr>category = Some ''food'', month = Some 3, status = Some Active\<rparr>]
   \<and> snd (snd (findAll (recording stub_budgets_service) authenticated_request
        \<lparr>category = None, month = None, status = None\<rparr> (0::nat, [])))
       = [Call_findAll ''user-1'' \<lparr>category = None, month = None, status = None\<rparr>]
   \<and> BudgetsController (JwtAuthGuard sample_verify) stub_budgets_service GET_budgets sample_request
        (0::nat) = (Response 200 (BudgetsBody [sample_budget]), 0)"
proof -
  have u: "user authenticated_request = Some \<lparr>sub = ''user-1''\<rparr>"
    by (simp add: authenticated_request_def)
  have g: "JwtAuthGuard sample_verify sample_request = Inr authenticated_request"
    by (simp add: JwtAuthGuard_def bearer_token_def sample_defs)
  from findAll_forwards_filters [where req = authenticated_request and u = "\<lparr>sub = ''user-1''\<rparr>"
      and svc = stub_budgets_service and s = "0::nat"
      and filterOptions = "\<lparr>category = Some ''food'', month = Some 3, status = Some Active\<rparr>"
      and ?jwtAuthGuard = "JwtAuthGuard sample_verify" and ?req0.0 = sample_request] u g
  have a: "snd (snd (findAll (recording stub_budgets_service) authenticated_request
        \<lparr>category = Some ''food'', month = Some 3, status = Some Active\<rparr> (0::nat, [])))
       = [Call_findAll ''user-1'' \<lparr>category = Some ''food'', month = Some 3, status = Some Active\<rparr>]"
    and c: "BudgetsController (JwtAuthGuard sample_verify) stub_budgets_service GET_budgets
        sample_request (0::nat) = (Response 200 (BudgetsBody [sample_budget]), 0)"
    by (simp_all add: stub_budgets_service_def)
  from findAll_forwards_filters [where req = authenticated_request and u = "\<lparr>sub = ''user-1''\<rparr>"
      and svc = stub_budgets_service and s = "0::nat"
      and filterOptions = "\<lparr>category = None, month = None, status = None\<rparr>"] u
  have b: "snd (snd (findAll (recording stub_budgets_service) authenticated_request
        \<lparr>category = None, month = None, status = None\<rparr> (0::nat, [])))
       = [Call_findAll ''user-1'' \<lparr>category = None, month = None, status = None\<rparr>]"
    by simp
  from u g a b c show ?thesis by blast
qed




text \<open>
  C9. Every handler of \<^verbatim>\<open>BudgetsController\<close> and \<^verbatim>\<open>AuthController\<close> is its service method
  at the shifted argument list: as computations they are equal, so the result and any
  rejection are the service's, unchanged; and run on a wrapped service, each handler
  logs exactly one call. For the budgets handlers \<^verbatim>\<open>req.user\<close> is defined, as the guard
  leaves it.
\<close>

theorem handlers_delegate:
  "user req = Some u \<Longrightarrow>
     create svc createBudgetDto req = svc_create svc (sub u) createBudgetDto
   \<and> findAll svc req filterOptions = svc_findAll svc (sub u) filterOptions
   \<and> findOne svc ident req = svc_findOne svc ident (sub u)
   \<and> update svc ident updateBudgetDto req = svc_update svc ident (sub u) updateBudgetDto
   \<and> remove svc ident req = svc_remove svc ident (sub u)
   \<and> getBalance svc ident req = svc_getBalance svc ident (sub u)
   \<and> createUser authService createDoctorDto = svc_registerUser authService createDoctorDto
   \<and> login authService areq = svc_generateJwtToken authService (user areq)
   \<and> snd (snd (create (recording svc) createBudgetDto req (s, []))) =
        [Call_create (sub u) createBudgetDto]
   \<and> snd (snd (findAll (recording svc) req filterOptions (s, []))) =
        [Call_findAll (sub u) filterOptions]
   \<and> snd (snd (findOne (recording svc) ident req (s, []))) = [Call_findOne ident (sub u)]
   \<and> snd (snd (update (recording svc) ident updateBudgetDto req (s, []))) =
        [Call_update ident (sub u) updateBudgetDto]
   \<and> snd (snd (remove (recording svc) ident req (s, []))) = [Call_remove ident (sub u)]
   \<and> snd (snd (getBalance (recording svc) ident req (s, []))) = [Call_getBalance ident (sub u)]
   \<and> snd (snd (createUser (recording_auth authService) createDoctorDto (t, []))) =
        [Call_registerUser createDoctorDto]
   \<and> snd (snd (login (recording_auth authService) areq (t, []))) =
        [Call_generateJwtToken (user areq)]"
  by (simp add: handler_defs createUser_def login_def recording_def recording_auth_def
        record_call_def split: prod.splits)

theorem handlers_delegate_witness:
  "user authenticated_request = Some \<lparr>sub = ''user-1''\<rparr>
   \<and> create stub_budgets_service [(''amount'', ''1000'')] authenticated_request (0::nat)
       = (Inr sample_budget, 0)
   \<and> remove stub_budgets_service ''b2c6e182-6aef-4c38-8d26-9153d7ebc7d2'' authenticated_request (0::nat)
       = svc_remove stub_budgets_service ''b2c6e182-6aef-4c38-8d26-9153d7ebc7d2'' ''user-1'' 0
   \<and> snd (snd (update (recording stub_budgets_service) ''b2c6e182-6aef-4c38-8d26-9153d7ebc7d2''
        [(''amount'', ''1200'')] authenticated_request (0::nat, [])))
       = [Call_update ''b2c6e182-6aef-4c38-8d26-9153d7ebc7d2'' ''user-1'' [(''amount'', ''1200'')]]
   \<and> snd (snd (login (recording_auth stub_auth_service)
        \<lparr>authorization = None, user = Some jane, params = [],
          query = \<lparr>category = None, month = None, status = None\<rparr>, body = []\<rparr> (0::nat, [])))
       = [Call_generateJwtToken (Some jane)]"
proof -
  have u: "user authenticated_request = Some \<lparr>sub = ''user-1''\<rparr>"
    by (simp add: authenticated_request_def)
  from handlers_delegate [OF u, where svc = stub_budgets_service
      and createBudgetDto = "[(''amount'', ''1000'')]"
      and ident = "''b2c6e182-6aef-4c38-8d26-9153d7ebc7d2''"
      and updateBudgetDto = "[(''amount'', ''1200'')]"
      and authService = stub_auth_service
      and areq = "\<lparr>authorization = None, user = Some jane, params = [],
          query = \<lparr>category = None, month = None, status = None\<rparr>, body = []\<rparr>"
      and s = "0::nat" and t = "0::nat"] u
  show ?thesis
    by (simp add: stub_budgets_service_def)
qed

section \<open>The owner scope depends on the token's subject only\<close>

text \<open>
  C10. The owner every \<^verbatim>\<open>BudgetsService\<close> call receives is \<^verbatim>\<open>req.user.sub\<close>, whatever the
  body, the query and the path hold. For two runs of a handler, on any two requests,
  DTOs, ids, services and states, the owner scopes are equal exactly when the two
  subjects are equal: a different subject gives a different scope, and no field of
  \<^verbatim>\<open>CreateBudgetDto\<close>, \<^verbatim>\<open>UpdateBudgetDto\<close> or \<^verbatim>\<open>FilterBudgetDto\<close> changes it.
\<close>

theorem owner_scope_from_token_only:
  "user req = Some u \<Longrightarrow> user req' = Some u' \<Longrightarrow>
     owner_scope (create (recording svc) dto req) s = [sub u]
   \<and> owner_scope (findAll (recording svc) req flt) s = [sub u]
   \<and> owner_scope (findOne (recording svc) ident req) s = [sub u]
   \<and> owner_scope (update (recording svc) ident udto req) s = [sub u]
   \<and> owner_scope (remove (recording svc) ident req) s = [sub u]
   \<and> owner_scope (getBalance (recording svc) ident req) s = [sub u]
   \<and> (owner_scope (create (recording svc) dto req) s
        = owner_scope (create (recording svc') dto' req') s') = (sub u = sub u')
   \<and> (owner_scope (findAll (recording svc) req flt) s
        = owner_scope (findAll (recording svc') req' flt') s') = (sub u = sub u')
   \<and> (owner_scope (findOne (recording svc) ident req) s
        = owner_scope (findOne (recording svc') ident' req') s') = (sub u = sub u')
   \<and> (owner_scope (update (recording svc) ident udto req) s
        = owner_scope (update (recording svc') ident' udto' req') s') = (sub u = sub u')
   \<and> (owner_scope (remove (recording svc) ident req) s
        = owner_scope (remove (recording svc') ident' req') s') = (sub u = sub u')
   \<and> (owner_scope (getBalance (recording svc) ident req) s
        = owner_scope (getBalance (recording svc') ident' req') s') = (sub u = sub u')"
  by (simp add: owner_scope_def handler_defs recording_def record_call_def split: prod.splits)

text \<open>A body that names another user does not move the scope; another subject does.\<close>

theorem owner_scope_from_token_only_witness:
  "user authenticated_request = Some \<lparr>sub = ''user-1''\<rparr>
   \<and> user (authenticated_request\<lparr>user := Some \<lparr>sub = ''user-2''\<rparr>\<rparr>) = Some \<lparr>sub = ''user-2''\<rparr>
   \<and> owner_scope (create (recording stub_budgets_service) [(''user_id'', ''user-2'')]
        authenticated_request) (0::nat) = [''user-1'']
   \<and> owner_scope (update (recording stub_budgets_service) ''b2c6e182-6aef-4c38-8d26-9153d7ebc7d2''
        [(''owner_id'', ''user-2'')] authenticated_request) (0::nat) = [''user-1'']
   \<and> owner_scope (create (recording stub_budgets_service) [(''user_id'', ''user-2'')]
        authenticated_request) (0::nat)
      \<noteq> owner_scope (create (recording stub_budgets_service) [(''user_id'', ''user-2'')]
        (authenticated_request\<lparr>user := Some \<lparr>sub = ''user-2''\<rparr>\<rparr>)) (0::nat)"
proof -
  have u1: "user authenticated_request = Some \<lparr>sub = ''user-1''\<rparr>"
    by (simp add: authenticated_request_def)
  have u2: "user (authenticated_request\<lparr>user := Some \<lparr>sub = ''user-2''\<rparr>\<rparr>)
      = Some \<lparr>sub = ''user-2''\<rparr>"
    by simp
  from owner_scope_from_token_only [OF u1 u2, where svc = stub_budgets_service
      and svc' = stub_budgets_service and s = "0::nat" and s' = "0::nat"
      and dto = "[(''user_id'', ''user-2'')]" and dto' = "[(''user_id'', ''user-2'')]"
      and ident = "''b2c6e182-6aef-4c38-8d26-9153d7ebc7d2''"
      and udto = "[(''owner_id'', ''user-2'')]" and udto' = "[]"
      and ident' = "''b2c6e182-6aef-4c38-8d26-9153d7ebc7d2''"
      and flt = "\<lparr>category = None, month = None, status = None\<rparr>"
      and flt' = "\<lparr>category = None, month = None, status = None\<rparr>"]
  have all: "owner_scope (create (recording stub_budgets_service) [(''user_id'', ''user-2'')]
        authenticated_request) (0::nat) = [''user-1'']
   \<and> owner_scope (update (recording stub_budgets_service) ''b2c6e182-6aef-4c38-8d26-9153d7ebc7d2''
        [(''owner_id'', ''user-2'')] authenticated_request) (0::nat) = [''user-1'']
   \<and> owner_scope (create (recording stub_budgets_service) [(''user_id'', ''user-2'')]
        authenticated_request) (0::nat)
      \<noteq> owner_scope (create (recording stub_budgets_service) [(''user_id'', ''user-2'')]
        (authenticated_request\<lparr>user := Some \<lparr>sub = ''user-2''\<rparr>\<rparr>)) (0::nat)"
    by (elim conjE, intro conjI) simp_all
  with u1 u2 show ?thesis by blast
qed

end
